theory Spec2Isabelle
  imports Complex_Main
begin

section \<open>JavaScript values\<close>

text \<open>
  The validation service (\<^verbatim>\<open>Validation_Service/src/monitor.service.js\<close>) computes with
  JavaScript numbers. A number is modelled as a real, one of the two infinities, or NaN.
  The special values are kept because the source divides by a caller-supplied price and
  compares with the operators greater-than and less-than, which are false on NaN. The
  model's zero is IEEE's positive zero: the sign of zero is not modelled.
\<close>

datatype jsnum = Num real | PosInf | NegInf | NaN

text \<open>
  A JavaScript number is an IEEE 754 binary64 value, and the result of an arithmetic
  operation is the exact result rounded to the nearest such value, a tie going to the even
  significand. \<open>round_half_even\<close> rounds a real to the nearest integer in that way;
  \<open>binade\<close> is the exponent of the binade a real lies in, no smaller than that of the
  subnormal numbers; \<open>round_real\<close> rounds to the nearest multiple of the unit in the last
  place of that binade (a significand of 53 bits); and \<open>roundToDouble\<close> gives an
  infinity when the rounded value is \<open>2 ^ 1024\<close> or beyond.
\<close>

definition round_half_even :: "real \<Rightarrow> int" where
  "round_half_even x =
     (let f = \<lfloor>x\<rfloor>; d = x - of_int f in
      if d < 1 / 2 then f else if 1 / 2 < d then f + 1 else if even f then f else f + 1)"

definition binade :: "real \<Rightarrow> int" where
  "binade x = max (- 1022) \<lfloor>log 2 \<bar>x\<bar>\<rfloor>"

definition round_real :: "real \<Rightarrow> real" where
  "round_real x =
     (let q = 2 powi (binade x - 52) in of_int (round_half_even (x / q)) * q)"

definition roundToDouble :: "real \<Rightarrow> jsnum" where
  "roundToDouble x =
     (if x = 0 then Num 0
      else if 2 ^ 1024 \<le> \<bar>round_real x\<bar> then (if 0 < x then PosInf else NegInf)
      else Num (round_real x))"

text \<open>
  Subtraction and division, as the price reconciliation uses them, round their result.
  The multiplication below is kept exact: the module multiplies only the configured number
  of days by 24, 60 and 60, and no statement in this theory relies on how a fractional
  number of days is rounded.
\<close>

fun js_sub :: "jsnum \<Rightarrow> jsnum \<Rightarrow> jsnum" where
  "js_sub NaN _ = NaN"
| "js_sub _ NaN = NaN"
| "js_sub (Num a) (Num b) = roundToDouble (a - b)"
| "js_sub (Num a) PosInf = NegInf"
| "js_sub (Num a) NegInf = PosInf"
| "js_sub PosInf PosInf = NaN"
| "js_sub PosInf _ = PosInf"
| "js_sub NegInf NegInf = NaN"
| "js_sub NegInf _ = NegInf"

fun js_abs :: "jsnum \<Rightarrow> jsnum" where
  "js_abs (Num a) = Num \<bar>a\<bar>"
| "js_abs PosInf = PosInf"
| "js_abs NegInf = PosInf"
| "js_abs NaN = NaN"

fun js_div :: "jsnum \<Rightarrow> jsnum \<Rightarrow> jsnum" where
  "js_div NaN _ = NaN"
| "js_div _ NaN = NaN"
| "js_div (Num a) (Num b) =
     (if b = 0 then (if a = 0 then NaN else if 0 < a then PosInf else NegInf)
      else roundToDouble (a / b))"
| "js_div (Num a) _ = Num 0"
| "js_div PosInf (Num b) = (if b < 0 then NegInf else PosInf)"
| "js_div NegInf (Num b) = (if b < 0 then PosInf else NegInf)"
| "js_div _ _ = NaN"

fun js_mul :: "jsnum \<Rightarrow> jsnum \<Rightarrow> jsnum" where
  "js_mul NaN _ = NaN"
| "js_mul _ NaN = NaN"
| "js_mul (Num a) (Num b) = Num (a * b)"
| "js_mul (Num a) PosInf = (if a = 0 then NaN else if 0 < a then PosInf else NegInf)"
| "js_mul (Num a) NegInf = (if a = 0 then NaN else if 0 < a then NegInf else PosInf)"
| "js_mul PosInf (Num b) = (if b = 0 then NaN else if 0 < b then PosInf else NegInf)"
| "js_mul NegInf (Num b) = (if b = 0 then NaN else if 0 < b then NegInf else PosInf)"
| "js_mul PosInf PosInf = PosInf"
| "js_mul PosInf NegInf = NegInf"
| "js_mul NegInf PosInf = NegInf"
| "js_mul NegInf NegInf = PosInf"

text \<open>The relational operators: every comparison with NaN is false.\<close>

fun js_lt :: "jsnum \<Rightarrow> jsnum \<Rightarrow> bool" where
  "js_lt NaN _ = False"
| "js_lt _ NaN = False"
| "js_lt (Num a) (Num b) = (a < b)"
| "js_lt (Num a) PosInf = True"
| "js_lt (Num a) NegInf = False"
| "js_lt PosInf _ = False"
| "js_lt NegInf NegInf = False"
| "js_lt NegInf _ = True"

fun js_le :: "jsnum \<Rightarrow> jsnum \<Rightarrow> bool" where
  "js_le NaN _ = False"
| "js_le _ NaN = False"
| "js_le (Num a) (Num b) = (a \<le> b)"
| "js_le (Num a) PosInf = True"
| "js_le (Num a) NegInf = False"
| "js_le PosInf PosInf = True"
| "js_le PosInf _ = False"
| "js_le NegInf _ = True"

definition js_gt :: "jsnum \<Rightarrow> jsnum \<Rightarrow> bool" where
  "js_gt a b = js_lt b a"

definition js_ge :: "jsnum \<Rightarrow> jsnum \<Rightarrow> bool" where
  "js_ge a b = js_le b a"

text \<open>
  Values: the results of the service are object literals whose shape varies from branch to
  branch, and an attestation gains fields after it is built, so objects are association
  lists from property names to values. \<open>JPromise v\<close> is the object an
  \<^verbatim>\<open>async\<close> function hands to its caller: a promise that is fulfilled with \<open>v\<close>.
\<close>

datatype jsval =
    Undefined
  | Null
  | JBool bool
  | JNum jsnum
  | JStr string
  | JObj "(string \<times> jsval) list"
  | JPromise jsval

text \<open>
  Reading a property. A promise has no property of its own besides the methods of its
  prototype, so reading \<^verbatim>\<open>success\<close> or \<^verbatim>\<open>details\<close> from one gives
  \<^verbatim>\<open>undefined\<close>. \<open>get_prop\<close> is used where the value read from is an object or a
  promise; \<open>read_prop\<close> is the read of a caller-supplied value, which throws a TypeError
  on \<^verbatim>\<open>undefined\<close> and \<^verbatim>\<open>null\<close>.
\<close>

fun get_prop :: "jsval \<Rightarrow> string \<Rightarrow> jsval" where
  "get_prop (JObj fs) k = (case map_of fs k of None \<Rightarrow> Undefined | Some v \<Rightarrow> v)"
| "get_prop _ k = Undefined"

fun read_prop :: "jsval \<Rightarrow> string \<Rightarrow> string + jsval" where
  "read_prop Undefined k = Inl (''Cannot read properties of undefined (reading '' @ k @ '')'')"
| "read_prop Null k = Inl (''Cannot read properties of null (reading '' @ k @ '')'')"
| "read_prop v k = Inr (get_prop v k)"

text \<open>Assignment to a property: replaces the value in place, or appends the new key.\<close>

fun set_prop :: "jsval \<Rightarrow> string \<Rightarrow> jsval \<Rightarrow> jsval" where
  "set_prop (JObj fs) k v =
     (if k \<in> set (map fst fs) then JObj (map (\<lambda>(k', v'). if k' = k then (k', v) else (k', v')) fs)
      else JObj (fs @ [(k, v)]))"
| "set_prop x k v = x"

text \<open>Truthiness (ToBoolean).\<close>

fun truthy :: "jsval \<Rightarrow> bool" where
  "truthy Undefined = False"
| "truthy Null = False"
| "truthy (JBool b) = b"
| "truthy (JNum (Num x)) = (x \<noteq> 0)"
| "truthy (JNum NaN) = False"
| "truthy (JNum _) = True"
| "truthy (JStr s) = (s \<noteq> [])"
| "truthy (JObj _) = True"
| "truthy (JPromise _) = True"

text \<open>What \<^verbatim>\<open>await\<close> gives: the value a promise is fulfilled with, any other value as it is.\<close>

fun await :: "jsval \<Rightarrow> jsval" where
  "await (JPromise v) = v"
| "await v = v"

section \<open>The environment of the service\<close>

text \<open>
  Everything the module reads from outside itself: the process environment, the clock, the
  number conversions of the JavaScript engine, and the collaborators it calls
  (the Chainlink aggregator, the \<^verbatim>\<open>ethers\<close> library, \<^verbatim>\<open>axios\<close> and
  \<^verbatim>\<open>dal.service\<close>). None of them is part of the module, so each is a parameter. A call
  that can throw or reject returns \<open>Inl\<close> of the error's \<^verbatim>\<open>message\<close>. The clock is read
  once per validation in the model; console output is left out.
\<close>

record env =
  process_env :: "string \<Rightarrow> string option"
  Date_now :: int
  StringToNumber :: "string \<Rightarrow> jsnum"
  NumberToString :: "jsnum \<Rightarrow> string"
  latestRoundData :: "string + int"
  Wallet :: "string \<Rightarrow> string + string"
  parseUnits :: "string \<Rightarrow> string + jsval"
  solidityPackedKeccak256 :: "jsval list \<Rightarrow> string + string"
  signMessage :: "string \<Rightarrow> string \<Rightarrow> string + string"
  verifyMessage :: "string \<Rightarrow> jsval \<Rightarrow> string + string"
  axios_post :: "string \<Rightarrow> jsval \<Rightarrow> string + jsval"
  storeAttestation :: "jsval \<Rightarrow> string + unit"
  isApprovedValidator :: "string \<Rightarrow> string + bool"

text \<open>\<^verbatim>\<open>process.env.K || d\<close>: an unset or empty variable gives the default, a set one its string.\<close>

definition env_or :: "env \<Rightarrow> string \<Rightarrow> jsval \<Rightarrow> jsval" where
  "env_or E k d = (case process_env E k of None \<Rightarrow> d | Some s \<Rightarrow> if s = [] then d else JStr s)"

definition env_var :: "env \<Rightarrow> string \<Rightarrow> jsval" where
  "env_var E k = (case process_env E k of None \<Rightarrow> Undefined | Some s \<Rightarrow> JStr s)"

definition VALIDATION_THRESHOLD :: "env \<Rightarrow> jsval" where
  "VALIDATION_THRESHOLD E = env_or E ''VALIDATION_THRESHOLD'' (JNum (roundToDouble (5 / 100)))"

definition POSITION_INACTIVITY_DAYS :: "env \<Rightarrow> jsval" where
  "POSITION_INACTIVITY_DAYS E = env_or E ''POSITION_INACTIVITY_DAYS'' (JNum (Num 7))"

definition VALIDATION_API_URL :: "env \<Rightarrow> jsval" where
  "VALIDATION_API_URL E = env_or E ''VALIDATION_API_URL'' Null"

text \<open>ToNumber, as the arithmetic and relational operators apply it to an operand.\<close>

fun to_number :: "env \<Rightarrow> jsval \<Rightarrow> jsnum" where
  "to_number E (JNum n) = n"
| "to_number E (JStr s) = StringToNumber E s"
| "to_number E (JBool b) = Num (if b then 1 else 0)"
| "to_number E Null = Num 0"
| "to_number E _ = NaN"

text \<open>ToString, as a template literal applies it to a substitution.\<close>

fun template_str :: "env \<Rightarrow> jsval \<Rightarrow> string" where
  "template_str E (JStr s) = s"
| "template_str E (JNum n) = NumberToString E n"
| "template_str E (JBool b) = (if b then ''true'' else ''false'')"
| "template_str E Undefined = ''undefined''"
| "template_str E Null = ''null''"
| "template_str E (JObj _) = ''[object Object]''"
| "template_str E (JPromise _) = ''[object Promise]''"

text \<open>The method call \<^verbatim>\<open>v.toString()\<close>, which throws on \<^verbatim>\<open>undefined\<close> and \<^verbatim>\<open>null\<close>.\<close>

fun toString :: "env \<Rightarrow> jsval \<Rightarrow> string + string" where
  "toString E Undefined = Inl ''Cannot read properties of undefined (reading toString)''"
| "toString E Null = Inl ''Cannot read properties of null (reading toString)''"
| "toString E v = Inr (template_str E v)"

section \<open>Effects\<close>

text \<open>
  The calls a function makes to its collaborators, in the order they happen (each recorded
  when it is made, whether or not it succeeds), and the construction of an attestation
  object, recorded so that the theorems can speak of it.
\<close>

datatype event =
    Constructed jsval
  | Call_axios_post string jsval
  | Call_storeAttestation jsval
  | Call_verifyMessage string jsval
  | Call_isApprovedValidator string

text \<open>
  A computation returns a value or throws (\<open>Inl\<close> of the message), and has emitted a list of
  events either way.
\<close>

type_synonym 'a eff = "(string + 'a) \<times> event list"

definition ret :: "'a \<Rightarrow> 'a eff" where
  "ret x = (Inr x, [])"

definition lift :: "string + 'a \<Rightarrow> 'a eff" where
  "lift r = (r, [])"

definition emit :: "event \<Rightarrow> unit eff" where
  "emit ev = (Inr (), [ev])"

definition bind_eff :: "'a eff \<Rightarrow> ('a \<Rightarrow> 'b eff) \<Rightarrow> 'b eff" where
  "bind_eff m f =
     (case m of
        (Inl e, t) \<Rightarrow> (Inl e, t)
      | (Inr x, t) \<Rightarrow> (case f x of (r, t') \<Rightarrow> (r, t @ t')))"

text \<open>\<^verbatim>\<open>try { m } catch (err) { h(err.message) }\<close>\<close>

definition try_catch :: "'a eff \<Rightarrow> (string \<Rightarrow> 'a eff) \<Rightarrow> 'a eff" where
  "try_catch m h =
     (case m of
        (Inl e, t) \<Rightarrow> (case h e of (r, t') \<Rightarrow> (r, t @ t'))
      | (Inr x, t) \<Rightarrow> (Inr x, t))"

section \<open>Price reconciliation\<close>

text \<open>
  \<^verbatim>\<open>getChainlinkPrice\<close>: the aggregator's answer has 8 decimals, and
  \<^verbatim>\<open>parseFloat\<close> gives the double nearest to the decimal it reads; an error of the call
  is logged and thrown again.
\<close>

definition getChainlinkPrice :: "env \<Rightarrow> jsnum eff" where
  "getChainlinkPrice E =
     try_catch
       (bind_eff (lift (latestRoundData E)) (\<lambda>answer.
          ret (roundToDouble (real_of_int answer / 10 ^ 8))))
       (\<lambda>err. lift (Inl err))"

text \<open>
  \<^verbatim>\<open>validatePrices\<close> is declared \<^verbatim>\<open>async\<close>: what a caller receives is a promise of the
  result object.
\<close>

definition validatePrices :: "env \<Rightarrow> jsnum \<Rightarrow> jsnum \<Rightarrow> jsval" where
  "validatePrices E binancePrice chainlinkPrice =
     (let priceDiff = js_div (js_abs (js_sub binancePrice chainlinkPrice)) chainlinkPrice in
      JPromise
        (if js_gt priceDiff (to_number E (VALIDATION_THRESHOLD E)) then
           JObj [(''success'', JBool False),
                 (''details'', JObj [(''binancePrice'', JNum binancePrice),
                                     (''chainlinkPrice'', JNum chainlinkPrice),
                                     (''difference'', JNum priceDiff),
                                     (''threshold'', VALIDATION_THRESHOLD E)])]
         else JObj [(''success'', JBool True)]))"

section \<open>Position state\<close>

record position =
  id_field :: string
  owner :: string
  lowerTick :: int
  upperTick :: int
  isRestaked :: bool
  lastActiveTimestamp :: int

text \<open>
  \<^verbatim>\<open>Math.pow(1.0001, tick)\<close>, in exact arithmetic: the language leaves the precision of
  \<^verbatim>\<open>Math.pow\<close> to the engine, and the statements below use the two prices only as the
  bounds the code compares with.
\<close>

definition tickToPrice :: "int \<Rightarrow> jsnum" where
  "tickToPrice tick = Num (power_int (10001 / 10000) tick)"

definition validatePositionState :: "env \<Rightarrow> position \<Rightarrow> string \<Rightarrow> jsnum \<Rightarrow> jsval" where
  "validatePositionState E position action currentPrice =
     (let lowerPrice = tickToPrice (lowerTick position);
          upperPrice = tickToPrice (upperTick position);
          isActive = (js_ge currentPrice lowerPrice \<and> js_le currentPrice upperPrice);
          currentTimestamp = Date_now E div 1000;
          inactiveDuration = currentTimestamp - lastActiveTimestamp position;
          inactivityThreshold =
            js_mul (js_mul (js_mul (to_number E (POSITION_INACTIVITY_DAYS E)) (Num 24)) (Num 60)) (Num 60)
      in
      if action = ''restake'' then
        if isActive then
          JObj [(''success'', JBool False),
                (''details'', JObj [(''reason'', JStr ''Position is currently active and cannot be restaked''),
                                    (''currentPrice'', JNum currentPrice),
                                    (''priceRange'', JStr (NumberToString E lowerPrice @ ''-'' @ NumberToString E upperPrice))])]
        else if js_lt (Num (real_of_int inactiveDuration)) inactivityThreshold then
          JObj [(''success'', JBool False),
                (''details'', JObj [(''reason'', JStr ''Position has not been inactive long enough to be restaked''),
                                    (''inactiveDuration'', JStr (NumberToString E (Num (real_of_int (inactiveDuration div 86400))) @ '' days'')),
                                    (''required'', JStr (template_str E (POSITION_INACTIVITY_DAYS E) @ '' days''))])]
        else if isRestaked position then
          JObj [(''success'', JBool False),
                (''details'', JObj [(''reason'', JStr ''Position is already restaked'')])]
        else JObj [(''success'', JBool True)]
      else if action = ''returnToPool'' then
        if \<not> isActive then
          JObj [(''success'', JBool False),
                (''details'', JObj [(''reason'', JStr ''Position is not active and should remain restaked''),
                                    (''currentPrice'', JNum currentPrice),
                                    (''priceRange'', JStr (NumberToString E lowerPrice @ ''-'' @ NumberToString E upperPrice))])]
        else if \<not> isRestaked position then
          JObj [(''success'', JBool False),
                (''details'', JObj [(''reason'', JStr ''Position is not currently restaked'')])]
        else JObj [(''success'', JBool True)]
      else JObj [(''success'', JBool True)])"

section \<open>Attestations\<close>

text \<open>
  The digest that is signed and verified. \<^verbatim>\<open>generateAttestation\<close> and
  \<^verbatim>\<open>verifyAttestation\<close> contain the same expression, over the fields of the attestation
  they hold; the list of Solidity types it passes is a constant and is left to the
  parameter.
\<close>

definition messageHash :: "env \<Rightarrow> jsval \<Rightarrow> string eff" where
  "messageHash E attestation =
     bind_eff (lift (toString E (get_prop attestation ''priceAtValidation''))) (\<lambda>priceString.
     bind_eff (lift (parseUnits E priceString)) (\<lambda>scaled.
       lift (solidityPackedKeccak256 E
               [JStr ''RESTAKING_ATTESTATION'',
                get_prop attestation ''positionId'',
                get_prop attestation ''owner'',
                get_prop attestation ''action'',
                get_prop attestation ''timestamp'',
                scaled])))"

definition generateAttestation :: "env \<Rightarrow> position \<Rightarrow> string \<Rightarrow> jsnum \<Rightarrow> jsval eff" where
  "generateAttestation E position action currentPrice =
     (let attestationData =
        JObj [(''positionId'', JStr (id_field position)),
              (''owner'', JStr (owner position)),
              (''action'', JStr action),
              (''timestamp'', JNum (Num (real_of_int (Date_now E div 1000)))),
              (''priceAtValidation'', JNum currentPrice),
              (''validatorAddress'', env_var E ''VALIDATOR_ADDRESS''),
              (''validationDetails'',
                 JObj [(''lowerTick'', JNum (Num (real_of_int (lowerTick position)))),
                       (''upperTick'', JNum (Num (real_of_int (upperTick position)))),
                       (''isRestaked'', JBool (isRestaked position)),
                       (''lastActiveTimestamp'', JNum (Num (real_of_int (lastActiveTimestamp position))))])]
      in
      bind_eff (emit (Constructed attestationData)) (\<lambda>_.
      bind_eff
        (if truthy (env_var E ''VALIDATOR_PRIVATE_KEY'') then
           bind_eff (lift (Wallet E (template_str E (env_var E ''VALIDATOR_PRIVATE_KEY'')))) (\<lambda>wallet.
           bind_eff (messageHash E attestationData) (\<lambda>hash.
           bind_eff (lift (signMessage E wallet hash)) (\<lambda>signature.
             ret (set_prop attestationData ''signature'' (JStr signature)))))
         else ret attestationData) (\<lambda>attestationData.
      bind_eff
        (if truthy (VALIDATION_API_URL E) then
           try_catch
             (bind_eff (emit (Call_axios_post (template_str E (VALIDATION_API_URL E)) attestationData)) (\<lambda>_.
              bind_eff (lift (axios_post E (template_str E (VALIDATION_API_URL E)) attestationData)) (\<lambda>response_data.
                ret (set_prop attestationData ''externalValidation'' response_data))))
             (\<lambda>err. ret attestationData)
         else ret attestationData) (\<lambda>attestationData.
      bind_eff (emit (Call_storeAttestation attestationData)) (\<lambda>_.
      bind_eff (lift (storeAttestation E attestationData)) (\<lambda>_.
        ret attestationData))))))"

definition verifyAttestation :: "env \<Rightarrow> jsval \<Rightarrow> jsval eff" where
  "verifyAttestation E attestation =
     try_catch
       (bind_eff (lift (read_prop attestation ''signature'')) (\<lambda>signature.
          if \<not> truthy signature then
            ret (JObj [(''valid'', JBool False), (''reason'', JStr ''No signature on attestation'')])
          else
            bind_eff (messageHash E attestation) (\<lambda>hash.
            bind_eff (emit (Call_verifyMessage hash signature)) (\<lambda>_.
            bind_eff (lift (verifyMessage E hash signature)) (\<lambda>recoveredAddress.
            bind_eff (emit (Call_isApprovedValidator recoveredAddress)) (\<lambda>_.
            bind_eff (lift (isApprovedValidator E recoveredAddress)) (\<lambda>approved.
              ret (JObj [(''valid'', JBool approved),
                         (''signer'', JStr recoveredAddress),
                         (''isApprovedValidator'', JBool approved)]))))))))
       (\<lambda>err. ret (JObj [(''valid'', JBool False), (''reason'', JStr err)]))"

section \<open>The orchestrator\<close>

text \<open>
  The body of the \<^verbatim>\<open>try\<close> block of \<^verbatim>\<open>validatePositionMovement\<close>. The call of
  \<^verbatim>\<open>validatePrices\<close> is not awaited, so \<open>priceValid\<close> is the promise itself and the two
  property reads are reads from a promise.
\<close>

definition validatePositionMovement_try :: "env \<Rightarrow> position \<Rightarrow> string \<Rightarrow> jsnum \<Rightarrow> jsval eff" where
  "validatePositionMovement_try E position action currentPrice =
     bind_eff (getChainlinkPrice E) (\<lambda>chainlinkPrice.
       let priceValid = validatePrices E currentPrice chainlinkPrice in
       if \<not> truthy (get_prop priceValid ''success'') then
         ret (JObj [(''success'', JBool False),
                    (''reason'', JStr ''Price validation failed''),
                    (''details'', get_prop priceValid ''details'')])
       else
         let positionValid = validatePositionState E position action currentPrice in
         if \<not> truthy (get_prop positionValid ''success'') then
           ret (JObj [(''success'', JBool False),
                      (''reason'', JStr ''Position state invalid for requested action''),
                      (''details'', get_prop positionValid ''details'')])
         else
           bind_eff (generateAttestation E position action currentPrice) (\<lambda>attestation.
             ret (JObj [(''success'', JBool True), (''attestation'', attestation)])))"

definition validatePositionMovement :: "env \<Rightarrow> position \<Rightarrow> string \<Rightarrow> jsnum \<Rightarrow> jsval eff" where
  "validatePositionMovement E position action currentPrice =
     try_catch
       (validatePositionMovement_try E position action currentPrice)
       (\<lambda>err. ret (JObj [(''success'', JBool False),
                          (''reason'', JStr ''Validation error''),
                          (''details'', JStr err)]))"

section \<open>The blocks of \<^verbatim>\<open>generateAttestation\<close>\<close>

text \<open>
  The function is one body of four blocks: the object literal, the signing block, the
  optional submission and the store. Each block is named here so that the proofs can take
  them one at a time; \<open>generateAttestation_steps\<close> below shows that the function is their
  composition.
\<close>

definition attestationData0 :: "env \<Rightarrow> position \<Rightarrow> string \<Rightarrow> jsnum \<Rightarrow> jsval" where
  "attestationData0 E position action currentPrice =
     JObj [(''positionId'', JStr (id_field position)),
           (''owner'', JStr (owner position)),
           (''action'', JStr action),
           (''timestamp'', JNum (Num (real_of_int (Date_now E div 1000)))),
           (''priceAtValidation'', JNum currentPrice),
           (''validatorAddress'', env_var E ''VALIDATOR_ADDRESS''),
           (''validationDetails'',
              JObj [(''lowerTick'', JNum (Num (real_of_int (lowerTick position)))),
                    (''upperTick'', JNum (Num (real_of_int (upperTick position)))),
                    (''isRestaked'', JBool (isRestaked position)),
                    (''lastActiveTimestamp'', JNum (Num (real_of_int (lastActiveTimestamp position))))])]"

definition signStep :: "env \<Rightarrow> jsval \<Rightarrow> jsval eff" where
  "signStep E attestationData =
     (if truthy (env_var E ''VALIDATOR_PRIVATE_KEY'') then
        bind_eff (lift (Wallet E (template_str E (env_var E ''VALIDATOR_PRIVATE_KEY'')))) (\<lambda>wallet.
        bind_eff (messageHash E attestationData) (\<lambda>hash.
        bind_eff (lift (signMessage E wallet hash)) (\<lambda>signature.
          ret (set_prop attestationData ''signature'' (JStr signature)))))
      else ret attestationData)"

definition submitStep :: "env \<Rightarrow> jsval \<Rightarrow> jsval eff" where
  "submitStep E attestationData =
     (if truthy (VALIDATION_API_URL E) then
        try_catch
          (bind_eff (emit (Call_axios_post (template_str E (VALIDATION_API_URL E)) attestationData)) (\<lambda>_.
           bind_eff (lift (axios_post E (template_str E (VALIDATION_API_URL E)) attestationData)) (\<lambda>response_data.
             ret (set_prop attestationData ''externalValidation'' response_data))))
          (\<lambda>err. ret attestationData)
      else ret attestationData)"

definition storeStep :: "env \<Rightarrow> jsval \<Rightarrow> jsval eff" where
  "storeStep E attestationData =
     bind_eff (emit (Call_storeAttestation attestationData)) (\<lambda>_.
     bind_eff (lift (storeAttestation E attestationData)) (\<lambda>_.
       ret attestationData))"

section \<open>Example inputs\<close>

text \<open>
  An environment with no variable set (so every default applies), a Chainlink answer of
  2500 dollars, collaborators that succeed except for the validation endpoint, and a clock
  at 1700000000 seconds; then variants of it, one collaborator changed in each.
\<close>

definition env0 :: env where
  "env0 = \<lparr> process_env = (\<lambda>k. None),
            Date_now = 1700000000000,
            StringToNumber = (\<lambda>s. NaN),
            NumberToString = (\<lambda>n. ''n''),
            latestRoundData = Inr 250000000000,
            Wallet = (\<lambda>k. Inr ''0xValidator''),
            parseUnits = (\<lambda>s. Inr (JStr s)),
            solidityPackedKeccak256 = (\<lambda>vs. Inr ''0xhash''),
            signMessage = (\<lambda>w h. Inr ''0xsig''),
            verifyMessage = (\<lambda>h s. Inr ''0xValidator''),
            axios_post = (\<lambda>u a. Inl ''ECONNREFUSED''),
            storeAttestation = (\<lambda>a. Inr ()),
            isApprovedValidator = (\<lambda>a. Inr True) \<rparr>"

definition env_api :: env where
  "env_api = env0 \<lparr> process_env :=
     (\<lambda>k. if k = ''VALIDATION_API_URL'' then Some ''http://validator.example/api'' else None) \<rparr>"

definition env_store_down :: env where
  "env_store_down = env0 \<lparr> storeAttestation := (\<lambda>a. Inl ''store unavailable'') \<rparr>"

definition env_feed_down :: env where
  "env_feed_down = env0 \<lparr> latestRoundData := Inl ''network error'' \<rparr>"

definition env_bad_signature :: env where
  "env_bad_signature = env0 \<lparr> verifyMessage := (\<lambda>h s. Inl ''invalid signature'') \<rparr>"

text \<open>A position over the ticks 0 to 1, last active exactly seven days before the clock of \<open>env0\<close>.\<close>

definition pos0 :: position where
  "pos0 = \<lparr> id_field = ''0x01'', owner = ''0xOwner'', lowerTick = 0, upperTick = 1,
            isRestaked = False, lastActiveTimestamp = 1699395200 \<rparr>"

definition att_unsigned :: jsval where
  "att_unsigned = JObj [(''positionId'', JStr ''0x01''), (''owner'', JStr ''0xOwner''),
                        (''action'', JStr ''restake''), (''timestamp'', JNum (Num 1700000000)),
                        (''priceAtValidation'', JNum (Num 2))]"

definition att_signed :: jsval where
  "att_signed = JObj [(''positionId'', JStr ''0x01''), (''owner'', JStr ''0xOwner''),
                      (''action'', JStr ''restake''), (''timestamp'', JNum (Num 1700000000)),
                      (''priceAtValidation'', JNum (Num 2)), (''signature'', JStr ''0xdead'')]"

section \<open>Basic facts\<close>

lemma js_lt_not_le: "js_lt a b \<Longrightarrow> \<not> js_le b a"
  by (induction a b rule: js_lt.induct) auto

lemma js_lt_NaN_right: "\<not> js_lt a NaN"
  by (cases a) auto

lemma js_lt_irrefl: "\<not> js_lt a a"
  by (cases a) auto

lemma not_js_lt_iff: "\<not> js_lt t d \<longleftrightarrow> js_le d t \<or> d = NaN \<or> t = NaN"
  by (cases t; cases d) auto

lemma js_lt_le_trans: "js_lt t a \<Longrightarrow> js_le a b \<Longrightarrow> js_lt t b"
  by (cases t; cases a; cases b) auto

subsection \<open>Rounding to doubles\<close>

lemma round_half_even_ge_floor: "\<lfloor>x\<rfloor> \<le> round_half_even x"
  by (simp add: round_half_even_def Let_def)

lemma round_half_even_le_floor1: "round_half_even x \<le> \<lfloor>x\<rfloor> + 1"
  by (simp add: round_half_even_def Let_def)

lemma round_half_even_of_int: "round_half_even (of_int n) = n"
  by (simp add: round_half_even_def Let_def)

lemma round_half_even_zero: "round_half_even 0 = 0"
  using round_half_even_of_int [of 0] by simp

lemma round_half_even_le_int: assumes "x \<le> of_int n" shows "round_half_even x \<le> n"
proof (cases "x = of_int n")
  case True
  then show ?thesis by (simp add: round_half_even_of_int)
next
  case False
  with assms have "x < of_int n" by simp
  then have "\<lfloor>x\<rfloor> < n" by (simp add: floor_less_iff)
  with round_half_even_le_floor1 [of x] show ?thesis by linarith
qed

lemma round_half_even_ge_int: "of_int n \<le> x \<Longrightarrow> n \<le> round_half_even x"
  using round_half_even_ge_floor [of x] by (meson le_floor_iff order_trans)

lemma round_half_even_mono: assumes "x \<le> y" shows "round_half_even x \<le> round_half_even y"
proof (cases "\<lfloor>x\<rfloor> = \<lfloor>y\<rfloor>")
  case True
  with assms show ?thesis
    by (auto simp: round_half_even_def Let_def)
next
  case False
  with assms have "\<lfloor>x\<rfloor> < \<lfloor>y\<rfloor>"
    by (simp add: floor_mono order.not_eq_order_implies_strict)
  with round_half_even_le_floor1 [of x] round_half_even_ge_floor [of y] show ?thesis
    by linarith
qed

lemma round_half_even_minus: "round_half_even (- x) = - round_half_even x"
proof (cases "x = of_int \<lfloor>x\<rfloor>")
  case True
  then obtain n where "x = of_int n" ..
  then show ?thesis by (simp add: round_half_even_of_int flip: of_int_minus)
next
  case False
  then have fl: "\<lfloor>- x\<rfloor> = - \<lfloor>x\<rfloor> - 1"
    by (metis ceiling_altdef ceiling_def add_diff_cancel minus_diff_eq uminus_add_conv_diff
        minus_minus)
  show ?thesis
    using False by (auto simp: round_half_even_def Let_def fl)
qed

lemma two_powr_int: "(2::real) powr real_of_int k = 2 powi k"
  by (simp add: powr_real_of_int')

lemma binade_ge: "- 1022 \<le> binade x"
  by (simp add: binade_def)

lemma binade_minus: "binade (- x) = binade x"
  by (simp add: binade_def)

lemma binade_upper: assumes "x \<noteq> 0" shows "\<bar>x\<bar> < 2 powi (binade x + 1)"
proof -
  have "\<bar>x\<bar> < 2 powr (real_of_int \<lfloor>log 2 \<bar>x\<bar>\<rfloor> + 1)"
    using assms floor_log_eq_powr_iff [of "\<bar>x\<bar>" 2 "\<lfloor>log 2 \<bar>x\<bar>\<rfloor>"] by simp
  also have "\<dots> = 2 powi (\<lfloor>log 2 \<bar>x\<bar>\<rfloor> + 1)"
    using two_powr_int [of "\<lfloor>log 2 \<bar>x\<bar>\<rfloor> + 1"] by simp
  also have "\<dots> \<le> 2 powi (binade x + 1)"
    by (rule power_int_increasing) (simp_all add: binade_def)
  finally show ?thesis .
qed

lemma binade_lower:
  assumes "x \<noteq> 0" and "- 1022 < binade x" shows "2 powi (binade x) \<le> \<bar>x\<bar>"
proof -
  from assms(2) have b: "binade x = \<lfloor>log 2 \<bar>x\<bar>\<rfloor>"
    by (simp add: binade_def max_def split: if_splits)
  have "2 powr (real_of_int \<lfloor>log 2 \<bar>x\<bar>\<rfloor>) \<le> \<bar>x\<bar>"
    using assms(1) floor_log_eq_powr_iff [of "\<bar>x\<bar>" 2 "\<lfloor>log 2 \<bar>x\<bar>\<rfloor>"] by simp
  then show ?thesis by (simp add: b two_powr_int)
qed

lemma binade_mono: assumes "x \<noteq> 0" and "\<bar>x\<bar> \<le> \<bar>y\<bar>" shows "binade x \<le> binade y"
proof -
  have "log 2 \<bar>x\<bar> \<le> log 2 \<bar>y\<bar>" using assms by simp
  then have "\<lfloor>log 2 \<bar>x\<bar>\<rfloor> \<le> \<lfloor>log 2 \<bar>y\<bar>\<rfloor>" by (rule floor_mono)
  then show ?thesis by (simp add: binade_def)
qed

text \<open>The binade of a real that is given between two powers of two.\<close>

lemma binade_eq:
  assumes "2 powi e \<le> \<bar>x\<bar>" and "\<bar>x\<bar> < 2 powi (e + 1)" and "- 1022 \<le> e"
  shows "binade x = e"
proof -
  have "(0::real) < 2 powi e" by simp
  with assms(1) have pos: "0 < \<bar>x\<bar>" by linarith
  have "2 powr real_of_int e \<le> \<bar>x\<bar> \<and> \<bar>x\<bar> < 2 powr (real_of_int e + 1)"
    using assms(1,2) two_powr_int [of e] two_powr_int [of "e + 1"] by simp
  then have "\<lfloor>log 2 \<bar>x\<bar>\<rfloor> = e"
    using pos floor_log_eq_powr_iff [of "\<bar>x\<bar>" 2 e] by simp
  with assms(3) show ?thesis by (simp add: binade_def)
qed

lemma round_real_zero: "round_real 0 = 0"
  by (simp add: round_real_def Let_def round_half_even_zero)

lemma round_real_minus: "round_real (- x) = - round_real x"
  by (simp add: round_real_def Let_def round_half_even_minus binade_minus)

lemma round_real_nonneg: assumes "0 \<le> x" shows "0 \<le> round_real x"
proof -
  have "0 \<le> x / 2 powi (binade x - 52)" using assms by simp
  then have "0 \<le> round_half_even (x / 2 powi (binade x - 52))"
    using round_half_even_ge_int [of 0] by simp
  then show ?thesis by (simp add: round_real_def Let_def)
qed

text \<open>A positive real rounds to a value inside the closure of its binade.\<close>

lemma round_real_upper: assumes "0 < x" shows "round_real x \<le> 2 powi (binade x + 1)"
proof -
  let ?q = "2 powi (binade x - 52) :: real"
  have q: "0 < ?q" by simp
  have split: "(2 powi (binade x + 1) :: real) = 2 powi 53 * ?q"
    using power_int_add [of "2::real" 53 "binade x - 52"] by (simp add: algebra_simps)
  have "x < 2 powi (binade x + 1)" using binade_upper [of x] assms by simp
  then have "x / ?q < 2 powi 53" using q by (simp add: split pos_divide_less_eq)
  then have "x / ?q \<le> of_int (2 ^ 53)" by simp
  then have "round_half_even (x / ?q) \<le> 2 ^ 53" by (rule round_half_even_le_int)
  then have "real_of_int (round_half_even (x / ?q)) \<le> 2 ^ 53"
    by (metis of_int_le_iff of_int_numeral of_int_power)
  then have "real_of_int (round_half_even (x / ?q)) * ?q \<le> 2 ^ 53 * ?q"
    using q by (simp only: mult_le_cancel_right_pos)
  also have "2 ^ 53 * ?q = 2 powi (binade x + 1)"
    using split by simp
  finally show ?thesis by (simp add: round_real_def Let_def)
qed

lemma round_real_lower:
  assumes "0 < x" and "- 1022 < binade x" shows "2 powi (binade x) \<le> round_real x"
proof -
  let ?q = "2 powi (binade x - 52) :: real"
  have q: "0 < ?q" by simp
  have split: "(2 powi (binade x) :: real) = 2 powi 52 * ?q"
    using power_int_add [of "2::real" 52 "binade x - 52"] by (simp add: algebra_simps)
  have "2 powi (binade x) \<le> x" using binade_lower [of x] assms by simp
  then have "2 powi 52 \<le> x / ?q" using q by (simp add: split pos_le_divide_eq)
  then have "of_int (2 ^ 52) \<le> x / ?q" by simp
  then have "2 ^ 52 \<le> round_half_even (x / ?q)" by (rule round_half_even_ge_int)
  then have "2 ^ 52 \<le> real_of_int (round_half_even (x / ?q))"
    by (metis of_int_le_iff of_int_numeral of_int_power)
  then have "2 ^ 52 * ?q \<le> real_of_int (round_half_even (x / ?q)) * ?q"
    using q by (simp only: mult_le_cancel_right_pos)
  then show ?thesis by (simp add: round_real_def Let_def split)
qed

lemma round_real_mono_pos:
  assumes "0 < x" and "x \<le> y" shows "round_real x \<le> round_real y"
proof (cases "binade x = binade y")
  case True
  let ?q = "2 powi (binade y - 52) :: real"
  have q: "0 < ?q" by simp
  have "x / ?q \<le> y / ?q" using assms q by (simp add: divide_right_mono)
  then have "round_half_even (x / ?q) \<le> round_half_even (y / ?q)"
    by (rule round_half_even_mono)
  then have "real_of_int (round_half_even (x / ?q)) * ?q
               \<le> real_of_int (round_half_even (y / ?q)) * ?q"
    using q by (simp only: mult_le_cancel_right_pos of_int_le_iff)
  then show ?thesis by (simp add: round_real_def Let_def True)
next
  case False
  have "binade x \<le> binade y" using assms by (intro binade_mono) auto
  with False have lt: "binade x < binade y" by simp
  have y: "0 < y" using assms by simp
  have "round_real x \<le> 2 powi (binade x + 1)" using assms(1) by (rule round_real_upper)
  also have "(2 powi (binade x + 1) :: real) \<le> 2 powi (binade y)"
    using lt by (intro power_int_increasing) auto
  also have "\<dots> \<le> round_real y"
    using y lt binade_ge [of x] by (intro round_real_lower) auto
  finally show ?thesis .
qed

lemma round_real_mono: assumes "x \<le> y" shows "round_real x \<le> round_real y"
proof -
  consider "0 < x" | "x \<le> 0" "0 \<le> y" | "y < 0" by linarith
  then show ?thesis
  proof cases
    case 1
    then show ?thesis using assms by (rule round_real_mono_pos)
  next
    case 2
    have "0 \<le> round_real (- x)" using 2 by (intro round_real_nonneg) simp
    then have "round_real x \<le> 0" by (simp add: round_real_minus)
    also have "0 \<le> round_real y" using 2 by (intro round_real_nonneg)
    finally show ?thesis .
  next
    case 3
    have "round_real (- y) \<le> round_real (- x)"
      using 3 assms by (intro round_real_mono_pos) auto
    then show ?thesis by (simp add: round_real_minus)
  qed
qed

text \<open>Rounding is monotone, never gives NaN, and commutes with the change of sign.\<close>

lemma roundToDouble_mono: assumes "x \<le> y" shows "js_le (roundToDouble x) (roundToDouble y)"
proof -
  have m: "round_real x \<le> round_real y" using assms by (rule round_real_mono)
  have px: "0 < x \<Longrightarrow> 0 \<le> round_real x" by (intro round_real_nonneg) simp
  have py: "0 < y \<Longrightarrow> 0 \<le> round_real y" by (intro round_real_nonneg) simp
  have nx: "x < 0 \<Longrightarrow> round_real x \<le> 0"
    using round_real_nonneg [of "- x"] by (simp add: round_real_minus)
  have ny: "y < 0 \<Longrightarrow> round_real y \<le> 0"
    using round_real_nonneg [of "- y"] by (simp add: round_real_minus)
  have tx: "x < 0 \<or> x = 0 \<or> 0 < x" and ty: "y < 0 \<or> y = 0 \<or> 0 < y" by linarith+
  show ?thesis
    using assms m px py nx ny tx ty
    by (auto simp: roundToDouble_def round_real_zero split: if_splits)
qed

lemma roundToDouble_not_NaN: "roundToDouble x \<noteq> NaN"
  by (simp add: roundToDouble_def)

lemma roundToDouble_abs_minus: "js_abs (roundToDouble (- x)) = js_abs (roundToDouble x)"
  by (auto simp: roundToDouble_def round_real_minus)

text \<open>
  The value of a rounding, for a real whose binade is given: what the examples below are
  computed with.
\<close>

lemma roundToDouble_eval:
  assumes "2 powi e \<le> \<bar>x\<bar>" and "\<bar>x\<bar> < 2 powi (e + 1)" and "- 1022 \<le> e" and "e \<le> 1022"
  shows "roundToDouble x = Num (of_int (round_half_even (x / 2 powi (e - 52))) * 2 powi (e - 52))"
proof -
  have b: "binade x = e" using assms(1-3) by (rule binade_eq)
  have x: "x \<noteq> 0"
  proof
    assume "x = 0"
    with assms(1) have "2 powi e \<le> (0::real)" by simp
    moreover have "(0::real) < 2 powi e" by simp
    ultimately show False by linarith
  qed
  have "\<bar>round_real x\<bar> \<le> 2 powi (e + 1)"
  proof (cases "0 < x")
    case True
    with round_real_upper [of x] round_real_nonneg [of x] show ?thesis by (simp add: b)
  next
    case False
    with x have n: "0 < - x" by simp
    with round_real_upper [of "- x"] round_real_nonneg [of "- x"] show ?thesis
      by (simp add: b round_real_minus binade_minus)
  qed
  also have "(2 powi (e + 1) :: real) \<le> 2 powi 1023"
    using assms(4) by (intro power_int_increasing) auto
  also have "(2 powi 1023 :: real) < 2 ^ 1024" by simp
  finally have "\<not> 2 ^ 1024 \<le> \<bar>round_real x\<bar>" by simp
  with x show ?thesis by (simp add: roundToDouble_def round_real_def Let_def b)
qed

text \<open>An integer below \<open>2 ^ 53\<close> in magnitude is a double.\<close>

lemma roundToDouble_of_int:
  assumes "\<bar>n\<bar> < 2 ^ 53" shows "roundToDouble (of_int n) = Num (of_int n)"
proof (cases "n = 0")
  case True
  then show ?thesis by (simp add: roundToDouble_def)
next
  case False
  let ?x = "real_of_int n"
  have x: "?x \<noteq> 0" using False by simp
  have one: "1 \<le> \<bar>?x\<bar>" using False by (metis of_int_abs of_int_1_le_iff zero_less_abs_iff int_one_le_iff_zero_less)
  have "(2 powi 0 :: real) \<le> \<bar>?x\<bar>" using one by simp
  have lt53: "\<bar>?x\<bar> < 2 powi 53"
    using assms by (metis of_int_abs of_int_less_iff of_int_numeral of_int_power power_int_numeral)
  have b0: "0 \<le> binade ?x"
  proof -
    have "binade 1 \<le> binade ?x" using one by (intro binade_mono) auto
    moreover have "binade 1 = 0" by (simp add: binade_def)
    ultimately show ?thesis by simp
  qed
  have b52: "binade ?x \<le> 52"
  proof (rule ccontr)
    assume "\<not> binade ?x \<le> 52"
    then have "53 \<le> binade ?x" by simp
    then have "(2 powi 53 :: real) \<le> 2 powi (binade ?x)"
      by (intro power_int_increasing) auto
    also have "\<dots> \<le> \<bar>?x\<bar>" using x b0 by (intro binade_lower) auto
    finally show False using lt53 by simp
  qed
  define k where "k = nat (52 - binade ?x)"
  have q: "(2 powi (binade ?x - 52) :: real) = inverse (2 ^ k)"
  proof -
    have "binade ?x - 52 = - int k" using b52 by (simp add: k_def)
    then show ?thesis by (simp add: power_int_minus)
  qed
  have "?x / 2 powi (binade ?x - 52) = of_int (n * 2 ^ k)"
    by (simp add: q field_simps)
  then have "round_real ?x = of_int (n * 2 ^ k) * inverse (2 ^ k)"
    by (simp add: round_real_def Let_def q round_half_even_of_int del: of_int_mult)
  then have r: "round_real ?x = ?x" by simp
  have "\<bar>?x\<bar> < 2 ^ 1024"
    using lt53 by (simp add: order_less_trans)
  with x r show ?thesis by (simp add: roundToDouble_def)
qed

text \<open>The doubles that the examples meet.\<close>

lemma double_0_05: "roundToDouble (5 / 100) = Num (3602879701896397 / 2 ^ 56)"
  using roundToDouble_eval [of "- 5" "5 / 100"] by (simp add: round_half_even_def)

lemma double_0_052: "roundToDouble (52 / 1000) = Num (7493989779944505 / 2 ^ 57)"
  using roundToDouble_eval [of "- 5" "52 / 1000"] by (simp add: round_half_even_def)

lemma double_0_2: "roundToDouble (500 / 2500) = Num (3602879701896397 / 2 ^ 54)"
  using roundToDouble_eval [of "- 3" "500 / 2500"] by (simp add: round_half_even_def)

subsection \<open>The functions of the service\<close>

lemma try_catch_ret_total: "\<exists>r. fst (try_catch m (\<lambda>err. ret (h err))) = Inr r"
  by (cases m) (auto simp: try_catch_def ret_def split: sum.splits)

lemma getChainlinkPrice_eq:
  "getChainlinkPrice E =
     (case latestRoundData E of
        Inl e \<Rightarrow> (Inl e, [])
      | Inr answer \<Rightarrow> (Inr (roundToDouble (real_of_int answer / 10 ^ 8)), []))"
  by (simp add: getChainlinkPrice_def try_catch_def bind_eff_def lift_def ret_def split: sum.splits)

text \<open>The default tolerance is the double nearest to 0.05.\<close>

lemma default_threshold:
  assumes "process_env E ''VALIDATION_THRESHOLD'' = None"
  shows "to_number E (VALIDATION_THRESHOLD E) = Num (3602879701896397 / 2 ^ 56)"
  using assms double_0_05 by (simp add: VALIDATION_THRESHOLD_def env_or_def)

text \<open>
  The reconciliation of two finite prices, with the two roundings of line 71 made
  explicit: \<open>d\<close> is the rounded difference and \<open>q\<close> the rounded quotient.
\<close>

lemma validatePrices_finite:
  assumes "secondary \<noteq> 0"
    and "roundToDouble (primary - secondary) = Num d"
    and "roundToDouble (\<bar>d\<bar> / secondary) = Num q"
    and "to_number E (VALIDATION_THRESHOLD E) = Num t"
  shows "truthy (get_prop (await (validatePrices E (Num primary) (Num secondary))) ''success'')
         \<longleftrightarrow> q \<le> t"
  using assms by (auto simp: validatePrices_def Let_def js_gt_def)

text \<open>
  A NaN price passes the reconciliation: the difference is NaN, and NaN is not greater
  than any threshold.
\<close>

lemma validatePrices_NaN:
  "truthy (get_prop (await (validatePrices E NaN chainlinkPrice)) ''success'')"
  by (simp add: validatePrices_def Let_def js_gt_def js_lt_NaN_right)

text \<open>
  What the orchestrator computes. The promise that \<^verbatim>\<open>validatePrices\<close> returns has no
  \<^verbatim>\<open>success\<close> property, so the first guard always fires: whenever the Chainlink price
  can be fetched, the result is the price-validation failure with \<^verbatim>\<open>details\<close> undefined,
  whatever the prices are, and nothing is emitted.
\<close>

lemma validatePositionMovement_eq:
  "validatePositionMovement E position action currentPrice =
     (case latestRoundData E of
        Inl e \<Rightarrow>
          (Inr (JObj [(''success'', JBool False), (''reason'', JStr ''Validation error''),
                      (''details'', JStr e)]), [])
      | Inr answer \<Rightarrow>
          (Inr (JObj [(''success'', JBool False), (''reason'', JStr ''Price validation failed''),
                      (''details'', Undefined)]), []))"
  by (simp add: validatePositionMovement_def validatePositionMovement_try_def getChainlinkPrice_eq
      validatePrices_def Let_def try_catch_def bind_eff_def ret_def split: sum.splits)

lemma unrecognized_action_passes:
  "action \<noteq> ''restake'' \<Longrightarrow> action \<noteq> ''returnToPool'' \<Longrightarrow>
   validatePositionState E position action currentPrice = JObj [(''success'', JBool True)]"
  by (simp add: validatePositionState_def Let_def)

subsection \<open>\<^verbatim>\<open>generateAttestation\<close>, block by block\<close>

lemma generateAttestation_steps:
  "generateAttestation E position action currentPrice =
     bind_eff (emit (Constructed (attestationData0 E position action currentPrice))) (\<lambda>_.
     bind_eff (signStep E (attestationData0 E position action currentPrice)) (\<lambda>signed.
     bind_eff (submitStep E signed) (\<lambda>submitted. storeStep E submitted)))"
  by (simp add: generateAttestation_def Let_def signStep_def submitStep_def storeStep_def
      attestationData0_def)

lemma messageHash_no_events: "snd (messageHash E a) = []"
  by (simp add: messageHash_def bind_eff_def lift_def split: sum.splits prod.splits)

lemma signStep_result:
  "\<exists>r. signStep E a = (r, []) \<and>
       (case r of Inl e \<Rightarrow> True
        | Inr a' \<Rightarrow> a' = a \<or> (\<exists>s. a' = set_prop a ''signature'' (JStr s)))"
proof (cases "messageHash E a")
  case (Pair r t)
  with messageHash_no_events [of E a] have "t = []" by simp
  with Pair show ?thesis
    by (auto simp: signStep_def bind_eff_def lift_def ret_def split: sum.splits prod.splits)
qed

lemma submitStep_eq:
  "submitStep E a =
     (if truthy (VALIDATION_API_URL E) then
        (case axios_post E (template_str E (VALIDATION_API_URL E)) a of
           Inl err \<Rightarrow> (Inr a, [Call_axios_post (template_str E (VALIDATION_API_URL E)) a])
         | Inr d \<Rightarrow> (Inr (set_prop a ''externalValidation'' d),
                     [Call_axios_post (template_str E (VALIDATION_API_URL E)) a]))
      else (Inr a, []))"
  by (simp add: submitStep_def try_catch_def bind_eff_def emit_def lift_def ret_def split: sum.splits)

lemma storeStep_eq:
  "storeStep E a =
     (case storeAttestation E a of
        Inl e \<Rightarrow> (Inl e, [Call_storeAttestation a])
      | Inr u \<Rightarrow> (Inr a, [Call_storeAttestation a]))"
  by (simp add: storeStep_def bind_eff_def emit_def lift_def ret_def split: sum.splits)

lemma no_externalValidation:
  "get_prop (attestationData0 E position action currentPrice) ''externalValidation'' = Undefined"
  "get_prop (set_prop (attestationData0 E position action currentPrice) ''signature'' v)
     ''externalValidation'' = Undefined"
  by (simp_all add: attestationData0_def)

section \<open>Price reconciliation: the claims\<close>

text \<open>
  Claim C2, as stated, does not hold. The function rejects when \<^verbatim>\<open>priceDiff\<close> is
  greater than the threshold and accepts otherwise, and a comparison with NaN is false: a
  NaN price gives a NaN difference, which is accepted although it is not less than or
  equal to the tolerance.
\<close>

theorem validatePrices_NaN_accepted:
  "truthy (get_prop (await (validatePrices env0 NaN (Num 2500))) ''success'')
   \<and> \<not> js_le (js_div (js_abs (js_sub NaN (Num 2500))) (Num 2500))
            (to_number env0 (VALIDATION_THRESHOLD env0))"
  by (simp add: validatePrices_NaN)

text \<open>
  Claim C2, amended. The result that \<^verbatim>\<open>validatePrices\<close> resolves to has
  \<^verbatim>\<open>success: true\<close> exactly when the difference it computes,
  \<^verbatim>\<open>Math.abs(primary - secondary) / secondary\<close> with each operation rounded to a double,
  is not greater than the tolerance: that is, when the computed difference is less than or
  equal to the tolerance, or the computed difference or the tolerance is NaN. A computed
  difference equal to the tolerance succeeds.
\<close>

theorem validatePrices_succeeds_unless_greater:
  "truthy (get_prop (await (validatePrices E primary secondary)) ''success'')
   \<longleftrightarrow> js_le (js_div (js_abs (js_sub primary secondary)) secondary)
             (to_number E (VALIDATION_THRESHOLD E))
       \<or> js_div (js_abs (js_sub primary secondary)) secondary = NaN
       \<or> to_number E (VALIDATION_THRESHOLD E) = NaN"
  using not_js_lt_iff [of "to_number E (VALIDATION_THRESHOLD E)"
                         "js_div (js_abs (js_sub primary secondary)) secondary"]
  by (auto simp: validatePrices_def Let_def js_gt_def)

text \<open>
  The boundary: for 105 against 100 the computed difference is the double nearest to 0.05,
  which is the default tolerance.
\<close>

theorem validatePrices_succeeds_unless_greater_witness:
  "js_div (js_abs (js_sub (Num 105) (Num 100))) (Num 100) = Num (3602879701896397 / 2 ^ 56)
   \<and> to_number env0 (VALIDATION_THRESHOLD env0) = Num (3602879701896397 / 2 ^ 56)
   \<and> truthy (get_prop (await (validatePrices env0 (Num 105) (Num 100))) ''success'')"
proof -
  have d: "roundToDouble (105 - 100) = Num 5"
    using roundToDouble_of_int [of 5] by simp
  have q: "js_div (js_abs (js_sub (Num 105) (Num 100))) (Num 100) = Num (3602879701896397 / 2 ^ 56)"
    using d double_0_05 by simp
  have t: "to_number env0 (VALIDATION_THRESHOLD env0) = Num (3602879701896397 / 2 ^ 56)"
    by (rule default_threshold) (simp add: env0_def)
  from validatePrices_succeeds_unless_greater [of env0 "Num 105" "Num 100"] q t
  show ?thesis by simp
qed

text \<open>
  The rounding matters at the boundary. For the two doubles below (3999.787848418298 and
  3809.321760398379) the exact quotient is above the default tolerance, but it rounds to
  the tolerance, and the reconciliation succeeds.
\<close>

lemma validatePrices_rounded_quotient:
  "truthy (get_prop (await (validatePrices env0 (Num (8795626495946135 / 2 ^ 41))
                                              (Num (8376787138996319 / 2 ^ 41)))) ''success'')
   \<and> (3602879701896397 / 2 ^ 56 :: real)
       < \<bar>8795626495946135 / 2 ^ 41 - 8376787138996319 / 2 ^ 41\<bar> / (8376787138996319 / 2 ^ 41)"
proof -
  have d: "roundToDouble (8795626495946135 / 2 ^ 41 - 8376787138996319 / 2 ^ 41)
             = Num (52354919618727 / 2 ^ 38)"
    using roundToDouble_eval [of 7 "8795626495946135 / 2 ^ 41 - 8376787138996319 / 2 ^ 41"]
    by (simp add: round_half_even_def)
  have q: "roundToDouble (\<bar>52354919618727 / 2 ^ 38\<bar> / (8376787138996319 / 2 ^ 41))
             = Num (3602879701896397 / 2 ^ 56)"
    using roundToDouble_eval [of "- 5" "\<bar>52354919618727 / 2 ^ 38\<bar> / (8376787138996319 / 2 ^ 41)"]
    by (simp add: round_half_even_def)
  have t: "to_number env0 (VALIDATION_THRESHOLD env0) = Num (3602879701896397 / 2 ^ 56)"
    by (rule default_threshold) (simp add: env0_def)
  have z: "(8376787138996319 / 2 ^ 41 :: real) \<noteq> 0" by simp
  from validatePrices_finite [OF z d q t] show ?thesis by simp
qed

text \<open>
  Claim C3, as stated, does not hold: the difference is taken relative to the second
  argument, so swapping the arguments changes the quotient. With the default tolerance,
  1000 against 1052 differs by 52/1052 (below 0.05) and succeeds, while 1052 against 1000
  differs by 52/1000 (above 0.05) and fails.
\<close>

theorem validatePrices_not_symmetric:
  "truthy (get_prop (await (validatePrices env0 (Num 1000) (Num 1052))) ''success'')
   \<and> \<not> truthy (get_prop (await (validatePrices env0 (Num 1052) (Num 1000))) ''success'')"
proof -
  have t: "to_number env0 (VALIDATION_THRESHOLD env0) = Num (3602879701896397 / 2 ^ 56)"
    by (rule default_threshold) (simp add: env0_def)
  have d1: "roundToDouble (1000 - 1052) = Num (- 52)"
    using roundToDouble_of_int [of "- 52"] by simp
  have "js_le (roundToDouble (52 / 1052)) (roundToDouble (5 / 100))"
    by (rule roundToDouble_mono) simp
  then have "\<not> js_lt (roundToDouble (5 / 100)) (roundToDouble (52 / 1052))"
    using js_lt_not_le by blast
  then have 1: "truthy (get_prop (await (validatePrices env0 (Num 1000) (Num 1052))) ''success'')"
    using d1 t double_0_05 by (simp add: validatePrices_def Let_def js_gt_def)
  have d2: "roundToDouble (1052 - 1000) = Num 52"
    using roundToDouble_of_int [of 52] by simp
  have q2: "roundToDouble (\<bar>52\<bar> / 1000) = Num (7493989779944505 / 2 ^ 57)"
    using double_0_052 by simp
  have z: "(1000::real) \<noteq> 0" by simp
  from validatePrices_finite [OF z d2 q2 t]
  have 2: "\<not> truthy (get_prop (await (validatePrices env0 (Num 1052) (Num 1000))) ''success'')"
    by simp
  from 1 2 show ?thesis by simp
qed

text \<open>
  Claim C3, amended. What holds is one direction: for positive prices, if the
  reconciliation succeeds with the smaller price as the base, it also succeeds after the
  swap, with the larger price as the base.
\<close>

theorem validatePrices_swap_to_larger_base:
  assumes "0 < b" and "b \<le> a"
    and "truthy (get_prop (await (validatePrices E (Num a) (Num b))) ''success'')"
  shows "truthy (get_prop (await (validatePrices E (Num b) (Num a))) ''success'')"
proof -
  let ?t = "to_number E (VALIDATION_THRESHOLD E)"
  let ?m = "js_abs (roundToDouble (a - b))"
  have m: "js_abs (roundToDouble (b - a)) = ?m"
    using roundToDouble_abs_minus [of "a - b"] by simp
  have le: "js_le (js_div ?m (Num a)) (js_div ?m (Num b)) \<or> js_div ?m (Num a) = js_div ?m (Num b)"
  proof (cases "roundToDouble (a - b)")
    case (Num d)
    have "\<bar>d\<bar> / a \<le> \<bar>d\<bar> / b"
      using assms(1,2) by (simp add: frac_le)
    then have "js_le (roundToDouble (\<bar>d\<bar> / a)) (roundToDouble (\<bar>d\<bar> / b))"
      by (rule roundToDouble_mono)
    with Num assms(1,2) show ?thesis by simp
  next
    case PosInf
    with assms(1,2) show ?thesis by simp
  next
    case NegInf
    with assms(1,2) show ?thesis by simp
  next
    case NaN
    with roundToDouble_not_NaN [of "a - b"] show ?thesis by simp
  qed
  have "\<not> js_lt ?t (js_div ?m (Num b))"
    using assms(3) by (simp add: validatePrices_def Let_def js_gt_def split: if_splits)
  with le have "\<not> js_lt ?t (js_div ?m (Num a))"
    using js_lt_le_trans by metis
  then show ?thesis
    by (simp add: validatePrices_def Let_def js_gt_def m)
qed

theorem validatePrices_swap_to_larger_base_witness:
  "(0::real) < 1000 \<and> (1000::real) \<le> 1040
   \<and> truthy (get_prop (await (validatePrices env0 (Num 1040) (Num 1000))) ''success'')
   \<and> truthy (get_prop (await (validatePrices env0 (Num 1000) (Num 1040))) ''success'')"
proof -
  have 1: "(0::real) < 1000" and 2: "(1000::real) \<le> 1040" by simp_all
  have t: "to_number env0 (VALIDATION_THRESHOLD env0) = roundToDouble (5 / 100)"
    using double_0_05 default_threshold [of env0] by (simp add: env0_def)
  have d: "roundToDouble (1040 - 1000) = Num 40"
    using roundToDouble_of_int [of 40] by simp
  have "js_le (roundToDouble (40 / 1000)) (roundToDouble (5 / 100))"
    by (rule roundToDouble_mono) simp
  then have "\<not> js_lt (roundToDouble (5 / 100)) (roundToDouble (40 / 1000))"
    using js_lt_not_le by blast
  then have 3: "truthy (get_prop (await (validatePrices env0 (Num 1040) (Num 1000))) ''success'')"
    using d t by (simp add: validatePrices_def Let_def js_gt_def)
  from validatePrices_swap_to_larger_base [OF 1 2 3] 3 show ?thesis by simp
qed

section \<open>Position state: the claims\<close>



text \<open>
  Claim C5. For a position that is not restaked, the action \<^verbatim>\<open>returnToPool\<close> fails at
  every price: when the position is not active the activity check rejects it, and when it
  is active the restaked check does.
\<close>

theorem returnToPool_requires_restaked:
  assumes "\<not> isRestaked position"
  shows "get_prop (validatePositionState E position ''returnToPool'' currentPrice) ''success''
           = JBool False
       \<and> get_prop (get_prop (validatePositionState E position ''returnToPool'' currentPrice)
                     ''details'') ''reason''
           = JStr (if js_ge currentPrice (tickToPrice (lowerTick position))
                      \<and> js_le currentPrice (tickToPrice (upperTick position))
                   then ''Position is not currently restaked''
                   else ''Position is not active and should remain restaked'')"
  using assms by (simp add: validatePositionState_def Let_def)

text \<open>Price 1 lies inside the range of \<open>pos0\<close>, price 2 outside.\<close>

theorem returnToPool_requires_restaked_witness:
  "get_prop (validatePositionState env0 pos0 ''returnToPool'' (Num 1)) ''success'' = JBool False
   \<and> get_prop (get_prop (validatePositionState env0 pos0 ''returnToPool'' (Num 1)) ''details'')
        ''reason'' = JStr ''Position is not currently restaked''
   \<and> get_prop (validatePositionState env0 pos0 ''returnToPool'' (Num 2)) ''success'' = JBool False
   \<and> get_prop (get_prop (validatePositionState env0 pos0 ''returnToPool'' (Num 2)) ''details'')
        ''reason'' = JStr ''Position is not active and should remain restaked''"
proof -
  have 1: "\<not> isRestaked pos0"
    by (simp add: pos0_def)
  have inside: "js_ge (Num 1) (tickToPrice (lowerTick pos0)) \<and> js_le (Num 1) (tickToPrice (upperTick pos0))"
    by (simp add: pos0_def tickToPrice_def js_ge_def)
  have outside: "\<not> js_le (Num 2) (tickToPrice (upperTick pos0))"
    by (simp add: pos0_def tickToPrice_def)
  from returnToPool_requires_restaked [OF 1, of env0 "Num 1"]
       returnToPool_requires_restaked [OF 1, of env0 "Num 2"] inside outside
  show ?thesis by simp
qed

section \<open>The orchestrator: the claims\<close>

text \<open>
  Claim C1. An attestation is constructed only after both validations have succeeded: on
  every call in which the price reconciliation resolves to a failure or the position-state
  check fails, \<^verbatim>\<open>validatePositionMovement\<close> emits nothing (no attestation is constructed,
  none is submitted or stored) and returns a result with \<^verbatim>\<open>success: false\<close>.
\<close>

theorem attestation_only_after_validation:
  assumes "fst (getChainlinkPrice E) = Inr chainlinkPrice"
    and "\<not> (truthy (get_prop (await (validatePrices E currentPrice chainlinkPrice)) ''success'')
            \<and> truthy (get_prop (validatePositionState E position action currentPrice) ''success''))"
  shows "snd (validatePositionMovement E position action currentPrice) = []
       \<and> (\<exists>r. fst (validatePositionMovement E position action currentPrice) = Inr r
              \<and> get_prop r ''success'' = JBool False)"
  by (simp add: validatePositionMovement_eq split: sum.splits)

text \<open>A price of 3000 against a Chainlink price of 2500: the reconciliation fails.\<close>

theorem attestation_only_after_validation_witness:
  "fst (getChainlinkPrice env0) = Inr (Num 2500)
   \<and> \<not> truthy (get_prop (await (validatePrices env0 (Num 3000) (Num 2500))) ''success'')
   \<and> snd (validatePositionMovement env0 pos0 ''restake'' (Num 3000)) = []
   \<and> (\<exists>r. fst (validatePositionMovement env0 pos0 ''restake'' (Num 3000)) = Inr r
          \<and> get_prop r ''success'' = JBool False)"
proof -
  have 1: "fst (getChainlinkPrice env0) = Inr (Num 2500)"
    using roundToDouble_of_int [of 2500] by (simp add: getChainlinkPrice_eq env0_def)
  have t: "to_number env0 (VALIDATION_THRESHOLD env0) = Num (3602879701896397 / 2 ^ 56)"
    by (rule default_threshold) (simp add: env0_def)
  have d: "roundToDouble (3000 - 2500) = Num 500"
    using roundToDouble_of_int [of 500] by simp
  have q: "roundToDouble (\<bar>500\<bar> / 2500) = Num (3602879701896397 / 2 ^ 54)"
    using double_0_2 by simp
  have z: "(2500::real) \<noteq> 0" by simp
  from validatePrices_finite [OF z d q t]
  have p: "\<not> truthy (get_prop (await (validatePrices env0 (Num 3000) (Num 2500))) ''success'')"
    by simp
  then have 2: "\<not> (truthy (get_prop (await (validatePrices env0 (Num 3000) (Num 2500))) ''success'')
            \<and> truthy (get_prop (validatePositionState env0 pos0 ''restake'' (Num 3000)) ''success''))"
    by simp
  from attestation_only_after_validation [OF 1 2] 1 p show ?thesis by simp
qed

text \<open>
  Claim C6, evaluated. The action \<^verbatim>\<open>compound\<close> is neither \<^verbatim>\<open>restake\<close> nor
  \<^verbatim>\<open>returnToPool\<close>, so the position-state check passes it without a test; the two
  prices are equal, so the reconciliation resolves to a success; and still the
  orchestrator returns the price-validation failure and neither generates nor stores an
  attestation, because it reads \<^verbatim>\<open>success\<close> from the promise that \<^verbatim>\<open>validatePrices\<close>
  returns and not from the result.
\<close>

theorem unrecognized_action_not_attested:
  "validatePositionState env0 pos0 ''compound'' (Num 2500) = JObj [(''success'', JBool True)]
   \<and> fst (getChainlinkPrice env0) = Inr (Num 2500)
   \<and> truthy (get_prop (await (validatePrices env0 (Num 2500) (Num 2500))) ''success'')
   \<and> get_prop (validatePrices env0 (Num 2500) (Num 2500)) ''success'' = Undefined
   \<and> validatePositionMovement env0 pos0 ''compound'' (Num 2500)
       = (Inr (JObj [(''success'', JBool False), (''reason'', JStr ''Price validation failed''),
                     (''details'', Undefined)]), [])"
proof -
  have c: "fst (getChainlinkPrice env0) = Inr (Num 2500)"
    using roundToDouble_of_int [of 2500] by (simp add: getChainlinkPrice_eq env0_def)
  have t: "to_number env0 (VALIDATION_THRESHOLD env0) = Num (3602879701896397 / 2 ^ 56)"
    by (rule default_threshold) (simp add: env0_def)
  have z: "roundToDouble 0 = Num 0"
    by (simp add: roundToDouble_def)
  have p: "truthy (get_prop (await (validatePrices env0 (Num 2500) (Num 2500))) ''success'')"
    using t z by (simp add: validatePrices_def Let_def js_gt_def)
  have u: "get_prop (validatePrices env0 (Num 2500) (Num 2500)) ''success'' = Undefined"
    by (simp add: validatePrices_def Let_def)
  have m: "validatePositionMovement env0 pos0 ''compound'' (Num 2500)
       = (Inr (JObj [(''success'', JBool False), (''reason'', JStr ''Price validation failed''),
                     (''details'', Undefined)]), [])"
    by (simp add: validatePositionMovement_eq env0_def)
  from c p u m show ?thesis
    by (simp add: unrecognized_action_passes)
qed

text \<open>
  Claim C9. \<^verbatim>\<open>validatePositionMovement\<close> never throws, and whenever anything inside its
  \<^verbatim>\<open>try\<close> block throws an error with message \<open>msg\<close>, it returns the object
  \<^verbatim>\<open>{success: false, reason: "Validation error", details: msg}\<close>.
\<close>

theorem validatePositionMovement_catches:
  "(\<exists>r. fst (validatePositionMovement E position action currentPrice) = Inr r)
   \<and> (fst (validatePositionMovement_try E position action currentPrice) = Inl msg
      \<longrightarrow> fst (validatePositionMovement E position action currentPrice)
          = Inr (JObj [(''success'', JBool False), (''reason'', JStr ''Validation error''),
                       (''details'', JStr msg)]))"
  by (cases "validatePositionMovement_try E position action currentPrice")
     (auto simp: validatePositionMovement_def try_catch_def ret_def split: sum.splits)

text \<open>The Chainlink call fails with a network error.\<close>

theorem validatePositionMovement_catches_witness:
  "fst (validatePositionMovement_try env_feed_down pos0 ''restake'' (Num 2)) = Inl ''network error''
   \<and> fst (validatePositionMovement env_feed_down pos0 ''restake'' (Num 2))
          = Inr (JObj [(''success'', JBool False), (''reason'', JStr ''Validation error''),
                       (''details'', JStr ''network error'')])"
proof -
  have 1: "fst (validatePositionMovement_try env_feed_down pos0 ''restake'' (Num 2)) = Inl ''network error''"
    by (simp add: validatePositionMovement_try_def getChainlinkPrice_eq bind_eff_def
        env_feed_down_def env0_def)
  from validatePositionMovement_catches
         [of env_feed_down pos0 "''restake''" "Num 2" "''network error''"] 1
  show ?thesis by blast
qed

section \<open>Attestations: the claims\<close>

text \<open>
  Claim C7. \<^verbatim>\<open>verifyAttestation\<close> never throws. When the attestation has no signature
  (the property is absent, or falsy), it returns \<^verbatim>\<open>valid: false\<close> with the reason
  "No signature on attestation" and calls neither the recovery nor the registry. When the
  recovery throws on the signature, it returns \<^verbatim>\<open>valid: false\<close> with the message of
  that error as the reason.
\<close>

theorem verifyAttestation_never_throws:
  "(\<exists>r. fst (verifyAttestation E attestation) = Inr r)
   \<and> (read_prop attestation ''signature'' = Inr sig \<and> \<not> truthy sig
        \<longrightarrow> verifyAttestation E attestation
            = (Inr (JObj [(''valid'', JBool False),
                          (''reason'', JStr ''No signature on attestation'')]), []))
   \<and> (read_prop attestation ''signature'' = Inr sig \<and> truthy sig
        \<and> fst (messageHash E attestation) = Inr h \<and> verifyMessage E h sig = Inl msg
        \<longrightarrow> fst (verifyAttestation E attestation)
            = Inr (JObj [(''valid'', JBool False), (''reason'', JStr msg)]))"
proof (intro conjI impI)
  show "\<exists>r. fst (verifyAttestation E attestation) = Inr r"
    unfolding verifyAttestation_def by (rule try_catch_ret_total)
next
  assume "read_prop attestation ''signature'' = Inr sig \<and> \<not> truthy sig"
  then show "verifyAttestation E attestation
      = (Inr (JObj [(''valid'', JBool False), (''reason'', JStr ''No signature on attestation'')]), [])"
    by (simp add: verifyAttestation_def try_catch_def bind_eff_def lift_def ret_def)
next
  assume a: "read_prop attestation ''signature'' = Inr sig \<and> truthy sig
        \<and> fst (messageHash E attestation) = Inr h \<and> verifyMessage E h sig = Inl msg"
  obtain t where "messageHash E attestation = (Inr h, t)"
    using a by (cases "messageHash E attestation") auto
  with a show "fst (verifyAttestation E attestation)
            = Inr (JObj [(''valid'', JBool False), (''reason'', JStr msg)])"
    by (simp add: verifyAttestation_def try_catch_def bind_eff_def lift_def ret_def emit_def)
qed

text \<open>An attestation without the field, and one whose signature the recovery rejects.\<close>

theorem verifyAttestation_never_throws_witness:
  "read_prop att_unsigned ''signature'' = Inr Undefined
   \<and> verifyAttestation env0 att_unsigned
     = (Inr (JObj [(''valid'', JBool False), (''reason'', JStr ''No signature on attestation'')]), [])
   \<and> verifyMessage env_bad_signature ''0xhash'' (JStr ''0xdead'') = Inl ''invalid signature''
   \<and> fst (verifyAttestation env_bad_signature att_signed)
     = Inr (JObj [(''valid'', JBool False), (''reason'', JStr ''invalid signature'')])"
proof -
  have 1: "read_prop att_unsigned ''signature'' = Inr Undefined \<and> \<not> truthy Undefined"
    by (simp add: att_unsigned_def)
  have 2: "read_prop att_signed ''signature'' = Inr (JStr ''0xdead'') \<and> truthy (JStr ''0xdead'')
        \<and> fst (messageHash env_bad_signature att_signed) = Inr ''0xhash''
        \<and> verifyMessage env_bad_signature ''0xhash'' (JStr ''0xdead'') = Inl ''invalid signature''"
    by (simp add: att_signed_def env_bad_signature_def env0_def messageHash_def bind_eff_def lift_def)
  from verifyAttestation_never_throws [of env0 att_unsigned Undefined] 1
       verifyAttestation_never_throws
         [of env_bad_signature att_signed "JStr ''0xdead''" "''0xhash''" "''invalid signature''"] 2
  show ?thesis by blast
qed

text \<open>
  Claim C8. In \<^verbatim>\<open>generateAttestation\<close>, a failed submission to the validation endpoint
  is not fatal: the attestation that was submitted carries no \<^verbatim>\<open>externalValidation\<close>,
  it is the one handed to the store, and it is the one returned when the store accepts it.
  A failed store is fatal: when the store rejects the attestation with an error, the
  function throws that error.
\<close>

theorem generateAttestation_failure_policy:
  "(Call_axios_post url att \<in> set (snd (generateAttestation E position action currentPrice))
      \<and> axios_post E url att = Inl err
    \<longrightarrow> Call_storeAttestation att \<in> set (snd (generateAttestation E position action currentPrice))
        \<and> get_prop att ''externalValidation'' = Undefined
        \<and> (storeAttestation E att = Inr ()
             \<longrightarrow> fst (generateAttestation E position action currentPrice) = Inr att))
   \<and> (Call_storeAttestation att' \<in> set (snd (generateAttestation E position action currentPrice))
      \<and> storeAttestation E att' = Inl e
    \<longrightarrow> fst (generateAttestation E position action currentPrice) = Inl e)"
proof -
  define a0 where "a0 = attestationData0 E position action currentPrice"
  obtain r where r: "signStep E a0 = (r, [])"
    and shape: "case r of Inl e \<Rightarrow> True
                | Inr a' \<Rightarrow> a' = a0 \<or> (\<exists>s. a' = set_prop a0 ''signature'' (JStr s))"
    using signStep_result [of E a0] by blast
  show ?thesis
  proof (cases r)
    case (Inl e0)
    with r show ?thesis
      by (simp add: generateAttestation_steps a0_def [symmetric] bind_eff_def emit_def)
  next
    case (Inr a1)
    with shape have ne: "get_prop a1 ''externalValidation'' = Undefined"
      by (auto simp: a0_def no_externalValidation)
    from Inr r ne show ?thesis
      by (auto simp: generateAttestation_steps a0_def [symmetric] bind_eff_def emit_def
          submitStep_eq storeStep_eq split: sum.splits if_splits)
  qed
qed

text \<open>
  With the endpoint configured and refusing the connection, the unsigned attestation is
  returned; with the store down, the call throws the store's error.
\<close>

theorem generateAttestation_failure_policy_witness:
  "axios_post env_api ''http://validator.example/api'' (attestationData0 env_api pos0 ''restake'' (Num 2))
     = Inl ''ECONNREFUSED''
   \<and> fst (generateAttestation env_api pos0 ''restake'' (Num 2))
     = Inr (attestationData0 env_api pos0 ''restake'' (Num 2))
   \<and> get_prop (attestationData0 env_api pos0 ''restake'' (Num 2)) ''externalValidation'' = Undefined
   \<and> fst (generateAttestation env_store_down pos0 ''restake'' (Num 2)) = Inl ''store unavailable''"
proof -
  let ?a = "attestationData0 env_api pos0 ''restake'' (Num 2)"
  let ?b = "attestationData0 env_store_down pos0 ''restake'' (Num 2)"
  have s1: "signStep env_api ?a = (Inr ?a, [])"
    by (simp add: signStep_def env_var_def env_api_def env0_def ret_def)
  have s2: "signStep env_store_down ?b = (Inr ?b, [])"
    by (simp add: signStep_def env_var_def env_store_down_def env0_def ret_def)
  have u1: "truthy (VALIDATION_API_URL env_api)"
    "template_str env_api (VALIDATION_API_URL env_api) = ''http://validator.example/api''"
    by (simp_all add: VALIDATION_API_URL_def env_or_def env_api_def env0_def)
  have u2: "\<not> truthy (VALIDATION_API_URL env_store_down)"
    by (simp add: VALIDATION_API_URL_def env_or_def env_store_down_def env0_def)
  have p: "axios_post env_api ''http://validator.example/api'' ?a = Inl ''ECONNREFUSED''"
    "storeAttestation env_api ?a = Inr ()"
    by (simp_all add: env_api_def env0_def)
  have q: "storeAttestation env_store_down ?b = Inl ''store unavailable''"
    by (simp add: env_store_down_def env0_def)
  have 1: "Call_axios_post ''http://validator.example/api'' ?a
             \<in> set (snd (generateAttestation env_api pos0 ''restake'' (Num 2)))"
    by (simp add: generateAttestation_steps s1 submitStep_eq storeStep_eq u1 p bind_eff_def emit_def)
  have 2: "Call_storeAttestation ?b
             \<in> set (snd (generateAttestation env_store_down pos0 ''restake'' (Num 2)))"
    by (simp add: generateAttestation_steps s2 submitStep_eq storeStep_eq u2 q bind_eff_def emit_def)
  from generateAttestation_failure_policy
         [of "''http://validator.example/api''" ?a env_api pos0 "''restake''" "Num 2" "''ECONNREFUSED''"]
       1 p
       generateAttestation_failure_policy
         [of _ _ env_store_down pos0 "''restake''" "Num 2" _ ?b "''store unavailable''"]
       2 q
  show ?thesis by blast
qed

end
